theory Spec2Isabelle
  imports Main "HOL-Library.Word"
begin

unbundle bit_operations_syntax

section \<open>The token viewer \<open>decode_token.py\<close>\<close>

text \<open>
  The program is ten lines of Python:
  \<^verbatim>\<open>
  if __name__ == "__main__":
      path = Path.home().joinpath("AppData", "Local", "tupy", f"spotify.{argv[1]}.token")
      if path.exists():
          with path.open("r") as f:
              print(dumps(loads(b64decode(f.read())), indent=2))
  \<close>
  Everything it does is done by the standard library, so the embedding follows the
  library functions it calls, as CPython 3.11 defines them on a POSIX system:
  \<open>pathlib\<close> (\<open>Path.home\<close>, \<open>joinpath\<close>, \<open>exists\<close>, \<open>open\<close>), \<open>base64.b64decode\<close> over
  \<open>binascii.a2b_base64\<close>, \<open>json.loads\<close> and \<open>json.dumps\<close>. A Python \<open>str\<close> is a list of
  code points, a \<open>bytes\<close> object a list of 8-bit words, a Python \<open>int\<close> an \<open>int\<close>.
  The conversions between decimal text and floating-point numbers (\<open>float(s)\<close> and
  \<open>float.__repr__\<close>) are parameters of the model. Limits of the interpreter (recursion
  depth, memory, the length limit of integer string conversion) are not modelled.
\<close>

subsection \<open>Strings, bytes and exceptions\<close>

type_synonym pystr = "nat list"
type_synonym byte = "8 word"
type_synonym bytes = "byte list"

definition ascii :: "string \<Rightarrow> pystr" where
  "ascii s = map of_char s"

definition startswith :: "'a list \<Rightarrow> 'a list \<Rightarrow> bool" where
  "startswith s p = (take (length p) s = p)"

datatype errno = ENOENT | ENOTDIR | EACCES | EISDIR

datatype binascii_msg = Incorrect_padding | One_more_than_a_multiple_of_4

datatype json_msg =
    Expecting_value
  | Extra_data
  | Unterminated_string
  | Invalid_control_character
  | Invalid_escape
  | Invalid_uXXXX_escape
  | Expecting_property_name
  | Expecting_colon_delimiter
  | Expecting_comma_delimiter
  | Unexpected_UTF8_BOM

datatype py_error =
    IndexError
  | RuntimeError
  | ValueError
  | OSError errno
  | UnicodeDecodeError
  | BinasciiError binascii_msg
  | JSONDecodeError json_msg

subsection \<open>\<open>base64.b64decode\<close>\<close>

text \<open>
  \<open>binascii.a2b_base64(data, strict_mode=False)\<close>. The decoding table gives the 6-bit
  value of a character of the alphabet and 255 for every other byte.
\<close>

definition BASE64_PAD :: byte where
  "BASE64_PAD = 61"

definition table_a2b_base64 :: "byte \<Rightarrow> byte" where
  "table_a2b_base64 c =
     (if 65 \<le> c \<and> c \<le> 90 then c - 65
      else if 97 \<le> c \<and> c \<le> 122 then c - 71
      else if 48 \<le> c \<and> c \<le> 57 then c + 4
      else if c = 43 then 62
      else if c = 47 then 63
      else 255)"

text \<open>
  The loop over the input: \<open>quad_pos\<close> counts the characters of the current group of
  four, \<open>leftchar\<close> holds the bits not yet written, \<open>pads\<close> the padding characters seen
  since the last data character. A complete padding ends the decoding (\<open>goto done\<close>);
  a byte outside the alphabet is skipped. After the loop an unfinished group is an error.
\<close>

fun a2b_loop :: "bytes \<Rightarrow> nat \<Rightarrow> byte \<Rightarrow> nat \<Rightarrow> bytes \<Rightarrow> binascii_msg + bytes" where
  "a2b_loop [] quad_pos leftchar pads bin_data =
     (if quad_pos \<noteq> 0
      then (if quad_pos = 1 then Inl One_more_than_a_multiple_of_4 else Inl Incorrect_padding)
      else Inr bin_data)"
| "a2b_loop (c # ascii_data) quad_pos leftchar pads bin_data =
     (if c = BASE64_PAD then
        (if quad_pos \<ge> 2 \<and> quad_pos + (pads + 1) \<ge> 4 then Inr bin_data
         else a2b_loop ascii_data quad_pos leftchar
                (if quad_pos \<ge> 2 then pads + 1 else pads) bin_data)
      else
        (let this_ch = table_a2b_base64 c in
         if this_ch \<ge> 64 then a2b_loop ascii_data quad_pos leftchar pads bin_data
         else if quad_pos = 0 then a2b_loop ascii_data 1 this_ch 0 bin_data
         else if quad_pos = 1 then
           a2b_loop ascii_data 2 (this_ch AND 0x0f) 0
             (bin_data @ [push_bit 2 leftchar OR drop_bit 4 this_ch])
         else if quad_pos = 2 then
           a2b_loop ascii_data 3 (this_ch AND 0x03) 0
             (bin_data @ [push_bit 4 leftchar OR drop_bit 2 this_ch])
         else
           a2b_loop ascii_data 0 0 0
             (bin_data @ [push_bit 6 leftchar OR this_ch])))"

definition a2b_base64 :: "bytes \<Rightarrow> py_error + bytes" where
  "a2b_base64 data =
     (case a2b_loop data 0 0 0 [] of
        Inl m \<Rightarrow> Inl (BinasciiError m)
      | Inr bin \<Rightarrow> Inr bin)"

text \<open>
  \<open>_bytes_from_decode_data\<close>: a \<open>str\<close> argument is encoded as ASCII, and a character
  outside ASCII raises \<open>ValueError\<close>.
\<close>

definition bytes_from_decode_data :: "pystr \<Rightarrow> py_error + bytes" where
  "bytes_from_decode_data s =
     (if list_all (\<lambda>c. c < 128) s then Inr (map of_nat s) else Inl ValueError)"

definition b64decode :: "pystr \<Rightarrow> py_error + bytes" where
  "b64decode s =
     (case bytes_from_decode_data s of
        Inl e \<Rightarrow> Inl e
      | Inr data \<Rightarrow> a2b_base64 data)"

subsection \<open>Standard Base64\<close>



definition b64_alphabet :: "nat \<Rightarrow> bool" where
  "b64_alphabet c =
     ((65 \<le> c \<and> c \<le> 90) \<or> (97 \<le> c \<and> c \<le> 122) \<or> (48 \<le> c \<and> c \<le> 57) \<or> c = 43 \<or> c = 47)"

definition standard_base64 :: "pystr \<Rightarrow> bool" where
  "standard_base64 s =
     (length s mod 4 = 0 \<and>
      list_all b64_alphabet
        (if drop (length s - 2) s = [61, 61] then take (length s - 2) s
         else if drop (length s - 1) s = [61] then take (length s - 1) s
         else s))"

subsection \<open>Decoding bytes to text\<close>

text \<open>
  \<open>json.loads\<close> decodes a \<open>bytes\<close> argument with \<open>s.decode(detect_encoding(s),
  'surrogatepass')\<close>. The decoders below are the codecs with that error handler: an
  encoded surrogate code point is let through, every other malformed sequence raises
  \<open>UnicodeDecodeError\<close>.
\<close>

definition Inr_cons :: "'a \<Rightarrow> 'e + 'a list \<Rightarrow> 'e + 'a list" where
  "Inr_cons x r = (case r of Inl e \<Rightarrow> Inl e | Inr xs \<Rightarrow> Inr (x # xs))"

definition is_continuation :: "byte \<Rightarrow> bool" where
  "is_continuation b = (b AND 0xC0 = 0x80)"

fun utf_8_decode :: "bytes \<Rightarrow> py_error + pystr" where
  "utf_8_decode [] = Inr []"
| "utf_8_decode (b0 # bs) =
     (if b0 < 0x80 then Inr_cons (unat b0) (utf_8_decode bs)
      else if 0xC2 \<le> b0 \<and> b0 \<le> 0xDF then
        (case bs of
           b1 # r \<Rightarrow>
             if is_continuation b1
             then Inr_cons (unat (b0 AND 0x1F) * 64 + unat (b1 AND 0x3F)) (utf_8_decode r)
             else Inl UnicodeDecodeError
         | _ \<Rightarrow> Inl UnicodeDecodeError)
      else if 0xE0 \<le> b0 \<and> b0 \<le> 0xEF then
        (case bs of
           b1 # b2 # r \<Rightarrow>
             if is_continuation b1 \<and> is_continuation b2 \<and> (b0 = 0xE0 \<longrightarrow> 0xA0 \<le> b1)
             then Inr_cons (unat (b0 AND 0x0F) * 4096 + unat (b1 AND 0x3F) * 64
                            + unat (b2 AND 0x3F)) (utf_8_decode r)
             else Inl UnicodeDecodeError
         | _ \<Rightarrow> Inl UnicodeDecodeError)
      else if 0xF0 \<le> b0 \<and> b0 \<le> 0xF4 then
        (case bs of
           b1 # b2 # b3 # r \<Rightarrow>
             if is_continuation b1 \<and> is_continuation b2 \<and> is_continuation b3
                \<and> (b0 = 0xF0 \<longrightarrow> 0x90 \<le> b1) \<and> (b0 = 0xF4 \<longrightarrow> b1 \<le> 0x8F)
             then Inr_cons (unat (b0 AND 0x07) * 262144 + unat (b1 AND 0x3F) * 4096
                            + unat (b2 AND 0x3F) * 64 + unat (b3 AND 0x3F)) (utf_8_decode r)
             else Inl UnicodeDecodeError
         | _ \<Rightarrow> Inl UnicodeDecodeError)
      else Inl UnicodeDecodeError)"

definition code_unit16 :: "bool \<Rightarrow> byte \<Rightarrow> byte \<Rightarrow> nat" where
  "code_unit16 le a b = (if le then unat a + 256 * unat b else 256 * unat a + unat b)"

fun utf_16_decode :: "bool \<Rightarrow> bytes \<Rightarrow> py_error + pystr" where
  "utf_16_decode le [] = Inr []"
| "utf_16_decode le [a] = Inl UnicodeDecodeError"
| "utf_16_decode le (a # b # r) =
     (let u = code_unit16 le a b in
      if 0xD800 \<le> u \<and> u \<le> 0xDBFF then
        (case r of
           c # d # r' \<Rightarrow>
             (let u2 = code_unit16 le c d in
              if 0xDC00 \<le> u2 \<and> u2 \<le> 0xDFFF
              then Inr_cons (0x10000 + (u - 0xD800) * 1024 + (u2 - 0xDC00)) (utf_16_decode le r')
              else Inr_cons u (utf_16_decode le r))
         | _ \<Rightarrow> Inr_cons u (utf_16_decode le r))
      else Inr_cons u (utf_16_decode le r))"

definition code_unit32 :: "bool \<Rightarrow> byte \<Rightarrow> byte \<Rightarrow> byte \<Rightarrow> byte \<Rightarrow> nat" where
  "code_unit32 le a b c d =
     (if le then unat a + 256 * unat b + 65536 * unat c + 16777216 * unat d
      else 16777216 * unat a + 65536 * unat b + 256 * unat c + unat d)"

fun utf_32_decode :: "bool \<Rightarrow> bytes \<Rightarrow> py_error + pystr" where
  "utf_32_decode le [] = Inr []"
| "utf_32_decode le (a # b # c # d # r) =
     (let u = code_unit32 le a b c d in
      if u < 0x110000 then Inr_cons u (utf_32_decode le r) else Inl UnicodeDecodeError)"
| "utf_32_decode le _ = Inl UnicodeDecodeError"

datatype encoding = UTF_8 | UTF_8_SIG | UTF_16 | UTF_16_LE | UTF_16_BE | UTF_32 | UTF_32_LE | UTF_32_BE

definition BOM_UTF8 :: bytes where "BOM_UTF8 = [0xEF, 0xBB, 0xBF]"
definition BOM_UTF16_LE :: bytes where "BOM_UTF16_LE = [0xFF, 0xFE]"
definition BOM_UTF16_BE :: bytes where "BOM_UTF16_BE = [0xFE, 0xFF]"
definition BOM_UTF32_LE :: bytes where "BOM_UTF32_LE = [0xFF, 0xFE, 0, 0]"
definition BOM_UTF32_BE :: bytes where "BOM_UTF32_BE = [0, 0, 0xFE, 0xFF]"

definition detect_encoding :: "bytes \<Rightarrow> encoding" where
  "detect_encoding b =
     (if startswith b BOM_UTF32_BE \<or> startswith b BOM_UTF32_LE then UTF_32
      else if startswith b BOM_UTF16_BE \<or> startswith b BOM_UTF16_LE then UTF_16
      else if startswith b BOM_UTF8 then UTF_8_SIG
      else if length b \<ge> 4 then
        (if b ! 0 = 0 then (if b ! 1 \<noteq> 0 then UTF_16_BE else UTF_32_BE)
         else if b ! 1 = 0 then (if b ! 2 \<noteq> 0 \<or> b ! 3 \<noteq> 0 then UTF_16_LE else UTF_32_LE)
         else UTF_8)
      else if length b = 2 then
        (if b ! 0 = 0 then UTF_16_BE else if b ! 1 = 0 then UTF_16_LE else UTF_8)
      else UTF_8)"

text \<open>
  \<open>bytes.decode(encoding, 'surrogatepass')\<close>. The codecs \<open>utf-8-sig\<close>, \<open>utf-16\<close> and
  \<open>utf-32\<close> remove a leading byte order mark; without one, \<open>utf-16\<close> and \<open>utf-32\<close> read
  the machine's byte order, taken as little-endian.
\<close>

definition bytes_decode :: "encoding \<Rightarrow> bytes \<Rightarrow> py_error + pystr" where
  "bytes_decode enc b =
     (case enc of
        UTF_8 \<Rightarrow> utf_8_decode b
      | UTF_8_SIG \<Rightarrow> utf_8_decode (if startswith b BOM_UTF8 then drop 3 b else b)
      | UTF_16 \<Rightarrow>
          (if startswith b BOM_UTF16_LE then utf_16_decode True (drop 2 b)
           else if startswith b BOM_UTF16_BE then utf_16_decode False (drop 2 b)
           else utf_16_decode True b)
      | UTF_16_LE \<Rightarrow> utf_16_decode True b
      | UTF_16_BE \<Rightarrow> utf_16_decode False b
      | UTF_32 \<Rightarrow>
          (if startswith b BOM_UTF32_LE then utf_32_decode True (drop 4 b)
           else if startswith b BOM_UTF32_BE then utf_32_decode False (drop 4 b)
           else utf_32_decode True b)
      | UTF_32_LE \<Rightarrow> utf_32_decode True b
      | UTF_32_BE \<Rightarrow> utf_32_decode False b)"

subsection \<open>Python objects\<close>

text \<open>
  The values \<open>json.loads\<close> builds: \<open>None\<close>, \<open>bool\<close>, \<open>int\<close>, \<open>float\<close>, \<open>str\<close>, \<open>list\<close> and
  \<open>dict\<close>. A \<open>dict\<close> is the list of its items in insertion order. A \<open>float\<close> is infinite,
  not a number, or a finite value of the type \<open>'f\<close>, which the model leaves open.
\<close>

datatype 'f pyfloat = Finite 'f | PosInf | NegInf | NaN

datatype 'f pyobj =
    PyNone
  | PyBool bool
  | PyInt int
  | PyFloat "'f pyfloat"
  | PyStr pystr
  | PyList "'f pyobj list"
  | PyDict "(pystr \<times> 'f pyobj) list"

text \<open>\<open>d[key] = value\<close>: a key already in the dictionary keeps its place.\<close>

fun dict_setitem :: "('k \<times> 'v) list \<Rightarrow> 'k \<Rightarrow> 'v \<Rightarrow> ('k \<times> 'v) list" where
  "dict_setitem [] key v = [(key, v)]"
| "dict_setitem ((k, x) # d) key v =
     (if k = key then (k, v) # d else (k, x) # dict_setitem d key v)"

definition dict :: "('k \<times> 'v) list \<Rightarrow> ('k \<times> 'v) list" where
  "dict pairs = foldl (\<lambda>d (k, v). dict_setitem d k v) [] pairs"

subsection \<open>\<open>json.loads\<close>\<close>

definition is_digit :: "nat \<Rightarrow> bool" where
  "is_digit c = (48 \<le> c \<and> c \<le> 57)"

text \<open>\<open>int(s)\<close> for a string \<open>-?[0-9]+\<close>.\<close>

definition nat_of_digits :: "pystr \<Rightarrow> nat" where
  "nat_of_digits ds = foldl (\<lambda>n d. 10 * n + (d - 48)) 0 ds"

definition int_of_str :: "pystr \<Rightarrow> int" where
  "int_of_str s =
     (case s of
        c # ds \<Rightarrow> if c = 45 then - int (nat_of_digits ds) else int (nat_of_digits s)
      | [] \<Rightarrow> 0)"

text \<open>
  \<open>NUMBER_RE = (-?(?:0|[1-9][0-9]*))(\.[0-9]+)?([eE][-+]?[0-9]+)?\<close>, matched at the
  start of the text: the three groups and the text after the match.
\<close>

definition match_integer :: "pystr \<Rightarrow> (pystr \<times> pystr) option" where
  "match_integer s =
     (let (sign, t) = (case s of c # t \<Rightarrow> if c = 45 then ([c], t) else ([], s) | [] \<Rightarrow> ([], s)) in
      case t of
        [] \<Rightarrow> None
      | c # u \<Rightarrow>
          if c = 48 then Some (sign @ [c], u)
          else if 49 \<le> c \<and> c \<le> 57
          then Some (sign @ c # takeWhile is_digit u, dropWhile is_digit u)
          else None)"

definition match_frac :: "pystr \<Rightarrow> pystr \<times> pystr" where
  "match_frac s =
     (case s of
        c # d # t \<Rightarrow>
          if c = 46 \<and> is_digit d
          then (c # d # takeWhile is_digit t, dropWhile is_digit t)
          else ([], s)
      | _ \<Rightarrow> ([], s))"

definition match_exp :: "pystr \<Rightarrow> pystr \<times> pystr" where
  "match_exp s =
     (case s of
        [] \<Rightarrow> ([], s)
      | c # t \<Rightarrow>
          if c = 101 \<or> c = 69 then
            (let (sign, u) =
               (case t of d # u \<Rightarrow> if d = 45 \<or> d = 43 then ([d], u) else ([], t) | [] \<Rightarrow> ([], t))
             in case u of
                  d # v \<Rightarrow>
                    if is_digit d
                    then (c # sign @ d # takeWhile is_digit v, dropWhile is_digit v)
                    else ([], s)
                | [] \<Rightarrow> ([], s))
          else ([], s))"

definition match_number :: "pystr \<Rightarrow> (pystr \<times> pystr \<times> pystr \<times> pystr) option" where
  "match_number s =
     (case match_integer s of
        None \<Rightarrow> None
      | Some (integer, t) \<Rightarrow>
          (let (frac, u) = match_frac t; (exp, v) = match_exp u
           in Some (integer, frac, exp, v)))"

text \<open>\<open>WHITESPACE = [ \t\n\r]*\<close>\<close>

definition is_ws :: "nat \<Rightarrow> bool" where
  "is_ws c = (c = 32 \<or> c = 9 \<or> c = 10 \<or> c = 13)"

definition skip_ws :: "pystr \<Rightarrow> pystr" where
  "skip_ws s = dropWhile is_ws s"

text \<open>
  \<open>scanstring\<close> (strict): the text after the opening quote gives the decoded string
  and the text after the closing quote.
\<close>

definition hex_value :: "nat \<Rightarrow> nat option" where
  "hex_value c =
     (if 48 \<le> c \<and> c \<le> 57 then Some (c - 48)
      else if 97 \<le> c \<and> c \<le> 102 then Some (c - 87)
      else if 65 \<le> c \<and> c \<le> 70 then Some (c - 55)
      else None)"

definition decode_uXXXX :: "pystr \<Rightarrow> nat option" where
  "decode_uXXXX s =
     (case s of
        a # b # c # d # _ \<Rightarrow>
          (case (hex_value a, hex_value b, hex_value c, hex_value d) of
             (Some x, Some y, Some z, Some w) \<Rightarrow> Some (((x * 16 + y) * 16 + z) * 16 + w)
           | _ \<Rightarrow> None)
      | _ \<Rightarrow> None)"

definition BACKSLASH :: "nat \<Rightarrow> nat option" where
  "BACKSLASH esc =
     (if esc = 34 then Some 34
      else if esc = 92 then Some 92
      else if esc = 47 then Some 47
      else if esc = 98 then Some 8
      else if esc = 102 then Some 12
      else if esc = 110 then Some 10
      else if esc = 114 then Some 13
      else if esc = 116 then Some 9
      else None)"

definition Inr_append_char :: "nat \<Rightarrow> 'e + (pystr \<times> pystr) \<Rightarrow> 'e + (pystr \<times> pystr)" where
  "Inr_append_char c r = (case r of Inl e \<Rightarrow> Inl e | Inr (chunks, rest) \<Rightarrow> Inr (c # chunks, rest))"

fun scanstring :: "pystr \<Rightarrow> json_msg + (pystr \<times> pystr)" where
  "scanstring [] = Inl Unterminated_string"
| "scanstring [c] =
     (if c = 34 then Inr ([], [])
      else if c = 92 then Inl Unterminated_string
      else if c < 32 then Inl Invalid_control_character
      else Inr_append_char c (scanstring []))"
| "scanstring (c # esc # u) =
     (if c = 34 then Inr ([], esc # u)
      else if c = 92 then
        (if esc \<noteq> 117 then
           (case BACKSLASH esc of
              None \<Rightarrow> Inl Invalid_escape
            | Some char \<Rightarrow> Inr_append_char char (scanstring u))
         else
           (case decode_uXXXX u of
              None \<Rightarrow> Inl Invalid_uXXXX_escape
            | Some uni \<Rightarrow>
                if 0xd800 \<le> uni \<and> uni \<le> 0xdbff \<and> startswith (drop 4 u) [92, 117] then
                  (case decode_uXXXX (drop 6 u) of
                     None \<Rightarrow> Inl Invalid_uXXXX_escape
                   | Some uni2 \<Rightarrow>
                       if 0xdc00 \<le> uni2 \<and> uni2 \<le> 0xdfff
                       then Inr_append_char
                              (0x10000 + (push_bit 10 (uni - 0xd800) OR (uni2 - 0xdc00)))
                              (scanstring (drop 10 u))
                       else Inr_append_char uni (scanstring (drop 4 u)))
                else Inr_append_char uni (scanstring (drop 4 u))))
      else if c < 32 then Inl Invalid_control_character
      else Inr_append_char c (scanstring (esc # u)))"

lemma Inr_append_char_Inr:
  "Inr_append_char c r = Inr (str, rest) \<longleftrightarrow> (\<exists>str'. r = Inr (str', rest) \<and> str = c # str')"
  by (auto simp: Inr_append_char_def split: sum.splits)

lemma scanstring_shorter: "scanstring s = Inr (str, rest) \<Longrightarrow> length rest < length s"
proof (induction "length s" arbitrary: s str rule: less_induct)
  case less
  show ?case
  proof (cases s rule: scanstring.cases)
    case 1
    with less.prems show ?thesis by simp
  next
    case (2 c)
    with less.prems show ?thesis by (auto simp: Inr_append_char_Inr split: if_splits)
  next
    case (3 c esc u)
    have IH: "\<And>v str'. scanstring v = Inr (str', rest) \<Longrightarrow> length v \<le> Suc (length u)
               \<Longrightarrow> length rest < length s"
    proof -
      fix v str' assume a: "scanstring v = Inr (str', rest)" "length v \<le> Suc (length u)"
      then have b: "length v < length s" using 3 by simp
      from less.hyps[OF b a(1)] b show "length rest < length s" by simp
    qed
    from less.prems 3 show ?thesis
      by (auto simp: Inr_append_char_Inr split: if_splits option.splits dest!: IH)
  qed
qed

lemma length_skip_ws: "length (skip_ws s) \<le> length s"
  by (simp add: skip_ws_def length_dropWhile_le)

lemma skip_ws_Cons_shorter: "skip_ws s = c # t \<Longrightarrow> length t < length s"
  using length_skip_ws [of s] by simp

text \<open>
  \<open>scan_once\<close>, \<open>JSONObject\<close> and \<open>JSONArray\<close>, on the text that remains: each gives the
  value and the text after it. The index arithmetic of the source (\<open>end\<close>, the
  \<open>IndexError\<close> at the end of the text) becomes a case distinction on the remaining text,
  and \<open>StopIteration\<close>, which every caller turns into ``Expecting value'', is that
  error. The loops stop when a value has consumed no text; that never happens
  (\<open>scan_once_shorter\<close> below) and makes the recursion well-founded.
\<close>

function scan_once :: "(pystr \<Rightarrow> 'f pyfloat) \<Rightarrow> pystr \<Rightarrow> json_msg + ('f pyobj \<times> pystr)"
  and JSONObject :: "(pystr \<Rightarrow> 'f pyfloat) \<Rightarrow> pystr \<Rightarrow> json_msg + ('f pyobj \<times> pystr)"
  and JSONObject_loop ::
    "(pystr \<Rightarrow> 'f pyfloat) \<Rightarrow> (pystr \<times> 'f pyobj) list \<Rightarrow> pystr \<Rightarrow> json_msg + ('f pyobj \<times> pystr)"
  and JSONArray :: "(pystr \<Rightarrow> 'f pyfloat) \<Rightarrow> pystr \<Rightarrow> json_msg + ('f pyobj \<times> pystr)"
  and JSONArray_loop ::
    "(pystr \<Rightarrow> 'f pyfloat) \<Rightarrow> 'f pyobj list \<Rightarrow> pystr \<Rightarrow> json_msg + ('f pyobj \<times> pystr)"
where
  "scan_once parse_float [] = Inl Expecting_value"
| "scan_once parse_float (nextchar # t) =
     (let string = nextchar # t in
          if nextchar = 34 then
            (case scanstring t of Inl e \<Rightarrow> Inl e | Inr (str, rest) \<Rightarrow> Inr (PyStr str, rest))
          else if nextchar = 123 then JSONObject parse_float t
          else if nextchar = 91 then JSONArray parse_float t
          else if nextchar = 110 \<and> startswith string (ascii ''null'') then Inr (PyNone, drop 4 string)
          else if nextchar = 116 \<and> startswith string (ascii ''true'')
          then Inr (PyBool True, drop 4 string)
          else if nextchar = 102 \<and> startswith string (ascii ''false'')
          then Inr (PyBool False, drop 5 string)
          else
            (case match_number string of
               Some (integer, frac, exp, rest) \<Rightarrow>
                 if frac \<noteq> [] \<or> exp \<noteq> []
                 then Inr (PyFloat (parse_float (integer @ frac @ exp)), rest)
                 else Inr (PyInt (int_of_str integer), rest)
             | None \<Rightarrow>
                 if nextchar = 78 \<and> startswith string (ascii ''NaN'')
                 then Inr (PyFloat NaN, drop 3 string)
                 else if nextchar = 73 \<and> startswith string (ascii ''Infinity'')
                 then Inr (PyFloat PosInf, drop 8 string)
                 else if nextchar = 45 \<and> startswith string (ascii ''-Infinity'')
                 then Inr (PyFloat NegInf, drop 9 string)
                 else Inl Expecting_value))"
| "JSONObject parse_float s =
     (case skip_ws s of
        [] \<Rightarrow> Inl Expecting_property_name
      | nextchar # t \<Rightarrow>
          if nextchar = 125 then Inr (PyDict [], t)
          else if nextchar \<noteq> 34 then Inl Expecting_property_name
          else JSONObject_loop parse_float [] t)"
| "JSONObject_loop parse_float pairs s =
     (case scanstring s of
        Inl e \<Rightarrow> Inl e
      | Inr (key, s1) \<Rightarrow>
          (case skip_ws s1 of
             [] \<Rightarrow> Inl Expecting_colon_delimiter
           | colon # s2 \<Rightarrow>
               if colon \<noteq> 58 then Inl Expecting_colon_delimiter
               else
                 (case scan_once parse_float (skip_ws s2) of
                    Inl e \<Rightarrow> Inl e
                  | Inr (v, s3) \<Rightarrow>
                      if \<not> length s3 < length (skip_ws s2) then Inl Expecting_value
                      else
                        (case skip_ws s3 of
                           [] \<Rightarrow> Inl Expecting_comma_delimiter
                         | nextchar # s4 \<Rightarrow>
                             if nextchar = 125 then Inr (PyDict (dict (pairs @ [(key, v)])), s4)
                             else if nextchar \<noteq> 44 then Inl Expecting_comma_delimiter
                             else
                               (case skip_ws s4 of
                                  [] \<Rightarrow> Inl Expecting_property_name
                                | quote # s5 \<Rightarrow>
                                    if quote \<noteq> 34 then Inl Expecting_property_name
                                    else JSONObject_loop parse_float (pairs @ [(key, v)]) s5)))))"
| "JSONArray parse_float s =
     (case skip_ws s of
        [] \<Rightarrow> JSONArray_loop parse_float [] []
      | nextchar # t \<Rightarrow>
          if nextchar = 93 then Inr (PyList [], t)
          else JSONArray_loop parse_float [] (nextchar # t))"
| "JSONArray_loop parse_float values s =
     (case scan_once parse_float s of
        Inl e \<Rightarrow> Inl e
      | Inr (v, s1) \<Rightarrow>
          if \<not> length s1 < length s then Inl Expecting_value
          else
            (case skip_ws s1 of
               [] \<Rightarrow> Inl Expecting_comma_delimiter
             | nextchar # s2 \<Rightarrow>
                 if nextchar = 93 then Inr (PyList (values @ [v]), s2)
                 else if nextchar \<noteq> 44 then Inl Expecting_comma_delimiter
                 else JSONArray_loop parse_float (values @ [v]) (skip_ws s2)))"
  by pat_completeness auto
termination
  apply (relation "measure (\<lambda>x. case x of
        Inl (Inl (_, s)) \<Rightarrow> 3 * length s
      | Inl (Inr (_, s)) \<Rightarrow> 3 * length s + 2
      | Inr (Inl (_, _, s)) \<Rightarrow> 3 * length s + 1
      | Inr (Inr (Inl (_, s))) \<Rightarrow> 3 * length s + 2
      | Inr (Inr (Inr (_, _, s))) \<Rightarrow> 3 * length s + 1)")
  apply (auto dest!: scanstring_shorter skip_ws_Cons_shorter)
  subgoal for s b x using length_skip_ws [of x] by linarith
  subgoal for pf s b x using length_skip_ws [of x] by linarith
  subgoal for pf s a b x using length_skip_ws [of x] by linarith
  done

declare JSONObject.simps [simp del] JSONObject_loop.simps [simp del]
  JSONArray.simps [simp del] JSONArray_loop.simps [simp del]

text \<open>
  \<open>JSONDecoder.decode\<close> and \<open>json.loads\<close>. A \<open>str\<close> argument must not start with a byte
  order mark; a \<open>bytes\<close> argument is decoded first.
\<close>

definition decode :: "(pystr \<Rightarrow> 'f pyfloat) \<Rightarrow> pystr \<Rightarrow> py_error + 'f pyobj" where
  "decode parse_float s =
     (case scan_once parse_float (skip_ws s) of
        Inl m \<Rightarrow> Inl (JSONDecodeError m)
      | Inr (obj, rest) \<Rightarrow>
          if skip_ws rest \<noteq> [] then Inl (JSONDecodeError Extra_data) else Inr obj)"

datatype pydata = Str pystr | Bytes bytes

fun loads :: "(pystr \<Rightarrow> 'f pyfloat) \<Rightarrow> pydata \<Rightarrow> py_error + 'f pyobj" where
  "loads parse_float (Str s) =
     (if startswith s [0xfeff] then Inl (JSONDecodeError Unexpected_UTF8_BOM)
      else decode parse_float s)"
| "loads parse_float (Bytes b) =
     (case bytes_decode (detect_encoding b) b of
        Inl e \<Rightarrow> Inl e
      | Inr s \<Rightarrow> decode parse_float s)"

subsection \<open>\<open>json.dumps\<close>\<close>

text \<open>\<open>int.__repr__\<close>\<close>

fun digits_of_nat :: "nat \<Rightarrow> pystr" where
  "digits_of_nat n = (if n < 10 then [48 + n] else digits_of_nat (n div 10) @ [48 + n mod 10])"

declare digits_of_nat.simps [simp del]

definition int_repr :: "int \<Rightarrow> pystr" where
  "int_repr i = (if i < 0 then 45 # digits_of_nat (nat (- i)) else digits_of_nat (nat i))"

text \<open>
  \<open>py_encode_basestring_ascii\<close>: \<open>ESCAPE_ASCII\<close> matches a backslash, a double quote and
  every character outside \<open>' '..'~'\<close>; \<open>replace\<close> is the replacement of one match.
\<close>

definition hex_digit :: "nat \<Rightarrow> nat" where
  "hex_digit d = (if d < 10 then 48 + d else 87 + d)"

definition format_04x :: "nat \<Rightarrow> pystr" where
  "format_04x n =
     [hex_digit (n div 4096 mod 16), hex_digit (n div 256 mod 16),
      hex_digit (n div 16 mod 16), hex_digit (n mod 16)]"

definition ESCAPE_DCT :: "nat \<Rightarrow> pystr option" where
  "ESCAPE_DCT c =
     (if c = 92 then Some [92, 92]
      else if c = 34 then Some [92, 34]
      else if c = 8 then Some [92, 98]
      else if c = 12 then Some [92, 102]
      else if c = 10 then Some [92, 110]
      else if c = 13 then Some [92, 114]
      else if c = 9 then Some [92, 116]
      else if c < 0x20 then Some ([92, 117] @ format_04x c)
      else None)"

definition replace :: "nat \<Rightarrow> pystr" where
  "replace c =
     (case ESCAPE_DCT c of
        Some r \<Rightarrow> r
      | None \<Rightarrow>
          if c < 0x10000 then [92, 117] @ format_04x c
          else
            (let n = c - 0x10000;
                 s1 = 0xd800 OR (drop_bit 10 n AND 0x3ff);
                 s2 = 0xdc00 OR (n AND 0x3ff)
             in [92, 117] @ format_04x s1 @ [92, 117] @ format_04x s2))"

definition ESCAPE_ASCII :: "nat \<Rightarrow> bool" where
  "ESCAPE_ASCII c = (c = 92 \<or> c = 34 \<or> \<not> (32 \<le> c \<and> c \<le> 126))"

definition py_encode_basestring_ascii :: "pystr \<Rightarrow> pystr" where
  "py_encode_basestring_ascii s =
     [34] @ concat (map (\<lambda>c. if ESCAPE_ASCII c then replace c else [c]) s) @ [34]"

definition floatstr :: "('f \<Rightarrow> pystr) \<Rightarrow> 'f pyfloat \<Rightarrow> pystr" where
  "floatstr float_repr o' =
     (case o' of
        NaN \<Rightarrow> ascii ''NaN''
      | PosInf \<Rightarrow> ascii ''Infinity''
      | NegInf \<Rightarrow> ascii ''-Infinity''
      | Finite x \<Rightarrow> float_repr x)"

text \<open>
  \<open>_make_iterencode\<close> with an indent: \<open>_indent = ' ' * indent\<close>, the item separator is
  \<open>','\<close> and the key separator \<open>': '\<close>. The chunks a generator yields are concatenated.
\<close>

definition newline_indent :: "nat \<Rightarrow> nat \<Rightarrow> pystr" where
  "newline_indent indent current_indent_level = 10 # replicate (indent * current_indent_level) 32"

fun iterencode :: "('f \<Rightarrow> pystr) \<Rightarrow> nat \<Rightarrow> 'f pyobj \<Rightarrow> nat \<Rightarrow> pystr"
  and iterencode_list :: "('f \<Rightarrow> pystr) \<Rightarrow> nat \<Rightarrow> 'f pyobj list \<Rightarrow> nat \<Rightarrow> bool \<Rightarrow> pystr"
  and iterencode_dict :: "('f \<Rightarrow> pystr) \<Rightarrow> nat \<Rightarrow> (pystr \<times> 'f pyobj) list \<Rightarrow> nat \<Rightarrow> bool \<Rightarrow> pystr"
where
  "iterencode fr ind (PyStr s) lvl = py_encode_basestring_ascii s"
| "iterencode fr ind PyNone lvl = ascii ''null''"
| "iterencode fr ind (PyBool b) lvl = (if b then ascii ''true'' else ascii ''false'')"
| "iterencode fr ind (PyInt i) lvl = int_repr i"
| "iterencode fr ind (PyFloat x) lvl = floatstr fr x"
| "iterencode fr ind (PyList lst) lvl =
     (if lst = [] then ascii ''[]''
      else [91] @ newline_indent ind (lvl + 1)
           @ iterencode_list fr ind lst (lvl + 1) True
           @ newline_indent ind lvl @ [93])"
| "iterencode fr ind (PyDict dct) lvl =
     (if dct = [] then ascii ''{}''
      else [123] @ newline_indent ind (lvl + 1)
           @ iterencode_dict fr ind dct (lvl + 1) True
           @ newline_indent ind lvl @ [125])"
| "iterencode_list fr ind [] lvl first = []"
| "iterencode_list fr ind (v # lst) lvl first =
     (if first then [] else [44] @ newline_indent ind lvl)
     @ iterencode fr ind v lvl @ iterencode_list fr ind lst lvl False"
| "iterencode_dict fr ind [] lvl first = []"
| "iterencode_dict fr ind ((key, v) # items) lvl first =
     (if first then [] else [44] @ newline_indent ind lvl)
     @ py_encode_basestring_ascii key @ [58, 32]
     @ iterencode fr ind v lvl @ iterencode_dict fr ind items lvl False"

definition dumps :: "('f \<Rightarrow> pystr) \<Rightarrow> 'f pyobj \<Rightarrow> nat \<Rightarrow> pystr" where
  "dumps float_repr obj indent = iterencode float_repr indent obj 0"

subsection \<open>\<open>pathlib\<close>: pure paths of the POSIX flavour\<close>

definition sep :: nat where
  "sep = 47"

text \<open>\<open>str.split(sep)\<close>, \<open>sep.join(parts)\<close> and \<open>str.rstrip(chars)\<close> for one character.\<close>

fun split :: "'a \<Rightarrow> 'a list \<Rightarrow> 'a list list" where
  "split c [] = [[]]"
| "split c (x # s) =
     (if x = c then [] # split c s
      else (case split c s of p # ps \<Rightarrow> (x # p) # ps | [] \<Rightarrow> [[x]]))"

fun join :: "'a \<Rightarrow> 'a list list \<Rightarrow> 'a list" where
  "join c [] = []"
| "join c [p] = p"
| "join c (p # q # ps) = p @ c # join c (q # ps)"

definition rstrip :: "'a \<Rightarrow> 'a list \<Rightarrow> 'a list" where
  "rstrip c s = rev (dropWhile (\<lambda>x. x = c) (rev s))"

text \<open>
  A path is its root (\<open>''\<close>, \<open>'/'\<close> or \<open>'//'\<close>) and its parts, the first of which is the
  root when there is one. The POSIX flavour has no drive.
\<close>

record path =
  path_root :: pystr
  path_parts :: "pystr list"

definition splitroot :: "pystr \<Rightarrow> pystr \<times> pystr" where
  "splitroot part =
     (if part \<noteq> [] \<and> hd part = sep then
        (let stripped_part = dropWhile (\<lambda>c. c = sep) part in
         if length part - length stripped_part = 2 then ([sep, sep], stripped_part)
         else ([sep], stripped_part))
      else ([], part))"

text \<open>
  \<open>parse_parts\<close> reads the arguments from the last to the first and stops at one with a
  root; \<open>parsed\<close> is built backwards and reversed at the end.
\<close>

fun parse_parts_rev :: "pystr list \<Rightarrow> pystr \<times> pystr list" where
  "parse_parts_rev [] = ([], [])"
| "parse_parts_rev (part # it) =
     (if part = [] then parse_parts_rev it
      else
        (let (root, rel) = splitroot part;
             parsed = filter (\<lambda>x. x \<noteq> [] \<and> x \<noteq> ascii ''.'') (rev (split sep rel))
         in if root \<noteq> [] then (root, parsed @ [root])
            else (let (root', parsed') = parse_parts_rev it in (root', parsed @ parsed'))))"

definition parse_parts :: "pystr list \<Rightarrow> pystr \<times> pystr list" where
  "parse_parts parts = (let (root, parsed) = parse_parts_rev (rev parts) in (root, rev parsed))"

definition from_parts :: "pystr list \<Rightarrow> path" where
  "from_parts args = (let (root, parts) = parse_parts args in \<lparr>path_root = root, path_parts = parts\<rparr>)"

definition join_parsed_parts ::
  "pystr \<Rightarrow> pystr list \<Rightarrow> pystr \<Rightarrow> pystr list \<Rightarrow> pystr \<times> pystr list" where
  "join_parsed_parts root parts root2 parts2 =
     (if root2 \<noteq> [] then (root2, parts2) else (root, parts @ parts2))"

definition joinpath :: "path \<Rightarrow> pystr list \<Rightarrow> path" where
  "joinpath self args =
     (let (root2, parts2) = parse_parts args;
          (root, parts) = join_parsed_parts (path_root self) (path_parts self) root2 parts2
      in \<lparr>path_root = root, path_parts = parts\<rparr>)"

definition format_parsed_parts :: "pystr \<Rightarrow> pystr list \<Rightarrow> pystr" where
  "format_parsed_parts root parts =
     (if root \<noteq> [] then root @ join sep (tl parts) else join sep parts)"

definition path_str :: "path \<Rightarrow> pystr" where
  "path_str self =
     (let s = format_parsed_parts (path_root self) (path_parts self)
      in if s = [] then ascii ''.'' else s)"

subsection \<open>The operating system\<close>

text \<open>
  What the program can observe and change: the environment variables, the home
  directory of the password database entry of the user (\<open>None\<close> when there is no
  entry), the working directory, the file system and the text written to standard
  output. \<open>trace\<close> records the system calls made. A directory lists its entries and may
  deny search permission; a regular file gives what opening it for reading as text and
  reading it to the end gives: the text, or the exception raised. Symbolic links, limits
  on the length of names and changes made by other processes are not modelled.
\<close>

datatype node = File "py_error + pystr" | Dir bool "(pystr \<times> node) list"

datatype event = Getenv pystr | Getpwuid | Stat pystr | Open pystr | Write pystr

record os_state =
  environ :: "pystr \<rightharpoonup> pystr"
  pw_dir :: "pystr option"
  cwd :: "pystr list"
  fs :: node
  stdout :: pystr
  trace :: "event list"

text \<open>
  Path resolution: from a directory and the directories above it, one component at a
  time. \<open>..\<close> in the root directory is the root directory.
\<close>

fun walk :: "node list \<Rightarrow> pystr list \<Rightarrow> errno + node list" where
  "walk stack [] = Inr stack"
| "walk [] (name # names) = Inl ENOENT"
| "walk (File content # up) (name # names) = Inl ENOTDIR"
| "walk (Dir search entries # up) (name # names) =
     (if \<not> search then Inl EACCES
      else if name = ascii ''.'' then walk (Dir search entries # up) names
      else if name = ascii ''..''
      then walk (if up = [] then [Dir search entries] else up) names
      else
        (case map_of entries name of
           None \<Rightarrow> Inl ENOENT
         | Some n \<Rightarrow> walk (n # Dir search entries # up) names))"

definition namei :: "os_state \<Rightarrow> pystr \<Rightarrow> errno + node" where
  "namei st p =
     (if p = [] then Inl ENOENT
      else
        (case (if hd p = sep then Inr [fs st] else walk [fs st] (cwd st)) of
           Inl e \<Rightarrow> Inl e
         | Inr start \<Rightarrow>
             (case walk start (filter (\<lambda>x. x \<noteq> []) (split sep p)) of
                Inl e \<Rightarrow> Inl e
              | Inr [] \<Rightarrow> Inl ENOENT
              | Inr (n # up) \<Rightarrow> Inr n)))"

text \<open>
  \<open>os.stat\<close> raises \<open>ValueError\<close> for a path with a null character and \<open>OSError\<close> when
  the resolution fails. \<open>Path.exists\<close> turns \<open>ValueError\<close> and the errors \<open>ENOENT\<close> and
  \<open>ENOTDIR\<close> into \<open>False\<close> and lets every other error through.
\<close>

definition os_stat :: "pystr \<Rightarrow> os_state \<Rightarrow> (py_error + node) \<times> os_state" where
  "os_stat p st =
     (if 0 \<in> set p then (Inl ValueError, st)
      else
        (case namei st p of
           Inl e \<Rightarrow> Inl (OSError e)
         | Inr n \<Rightarrow> Inr n,
         st\<lparr>trace := trace st @ [Stat p]\<rparr>))"

definition ignore_error :: "errno \<Rightarrow> bool" where
  "ignore_error e = (e = ENOENT \<or> e = ENOTDIR)"

definition exists :: "path \<Rightarrow> os_state \<Rightarrow> (py_error + bool) \<times> os_state" where
  "exists self st =
     (case os_stat (path_str self) st of
        (Inr n, st') \<Rightarrow> (Inr True, st')
      | (Inl (OSError e), st') \<Rightarrow> if ignore_error e then (Inr False, st') else (Inl (OSError e), st')
      | (Inl ValueError, st') \<Rightarrow> (Inr False, st')
      | (Inl e, st') \<Rightarrow> (Inl e, st'))"

text \<open>\<open>with path.open("r") as f: f.read()\<close>\<close>

definition open_read :: "path \<Rightarrow> os_state \<Rightarrow> (py_error + pystr) \<times> os_state" where
  "open_read self st =
     (if 0 \<in> set (path_str self) then (Inl ValueError, st)
      else
        (case namei st (path_str self) of
           Inl e \<Rightarrow> Inl (OSError e)
         | Inr (Dir search entries) \<Rightarrow> Inl (OSError EISDIR)
         | Inr (File content) \<Rightarrow> content,
         st\<lparr>trace := trace st @ [Open (path_str self)]\<rparr>))"

text \<open>\<open>print(text)\<close> writes the text and a newline to standard output.\<close>

definition print :: "pystr \<Rightarrow> os_state \<Rightarrow> os_state" where
  "print text st =
     st\<lparr>stdout := stdout st @ text @ [10], trace := trace st @ [Write (text @ [10])]\<rparr>"

text \<open>
  \<open>posixpath.expanduser('~')\<close>: \<open>$HOME\<close>, or without it the home directory of the password
  database; \<open>'~'\<close> itself when there is neither. \<open>Path.home()\<close> is
  \<open>Path('~').expanduser()\<close> and raises \<open>RuntimeError\<close> when the result still starts with
  \<open>'~'\<close>.
\<close>

definition os_environ_get :: "pystr \<Rightarrow> os_state \<Rightarrow> pystr option \<times> os_state" where
  "os_environ_get name st = (environ st name, st\<lparr>trace := trace st @ [Getenv name]\<rparr>)"

definition pwd_getpwuid :: "os_state \<Rightarrow> pystr option \<times> os_state" where
  "pwd_getpwuid st = (pw_dir st, st\<lparr>trace := trace st @ [Getpwuid]\<rparr>)"

definition expanduser_tilde :: "os_state \<Rightarrow> pystr \<times> os_state" where
  "expanduser_tilde st =
     (case os_environ_get (ascii ''HOME'') st of
        (None, st') \<Rightarrow>
          (case pwd_getpwuid st' of
             (None, st'') \<Rightarrow> (ascii ''~'', st'')
           | (Some userhome, st'') \<Rightarrow>
               (let r = rstrip sep userhome in if r = [] then [sep] else r, st''))
      | (Some userhome, st') \<Rightarrow>
          (let r = rstrip sep userhome in if r = [] then [sep] else r, st'))"

definition Path_home :: "os_state \<Rightarrow> (py_error + path) \<times> os_state" where
  "Path_home st =
     (let (homedir, st') = expanduser_tilde st
      in if take 1 homedir = ascii ''~'' then (Inl RuntimeError, st')
         else (Inr (from_parts [homedir]), st'))"

subsection \<open>The program\<close>

text \<open>
  \<open>sys.argv\<close> holds the name of the script and then the arguments. The call
  \<open>Path.home()\<close> is evaluated before the argument list of \<open>joinpath\<close>, and so before
  \<open>argv[1]\<close>. The result of a run is the uncaught exception, if any, and the final state;
  the interpreter exits with status 1 after an uncaught exception (and prints the
  traceback to standard error) and with status 0 otherwise.
\<close>

definition getitem :: "'a list \<Rightarrow> nat \<Rightarrow> py_error + 'a" where
  "getitem xs i = (if i < length xs then Inr (xs ! i) else Inl IndexError)"

definition main ::
  "(pystr \<Rightarrow> 'f pyfloat) \<Rightarrow> ('f \<Rightarrow> pystr) \<Rightarrow> pystr list \<Rightarrow> os_state \<Rightarrow> py_error option \<times> os_state"
where
  "main parse_float float_repr argv st =
     (case Path_home st of
        (Inl e, st1) \<Rightarrow> (Some e, st1)
      | (Inr home, st1) \<Rightarrow>
          (case getitem argv 1 of
             Inl e \<Rightarrow> (Some e, st1)
           | Inr identifier \<Rightarrow>
               (let path = joinpath home
                      [ascii ''AppData'', ascii ''Local'', ascii ''tupy'',
                       ascii ''spotify.'' @ identifier @ ascii ''.token'']
                in case exists path st1 of
                     (Inl e, st2) \<Rightarrow> (Some e, st2)
                   | (Inr False, st2) \<Rightarrow> (None, st2)
                   | (Inr True, st2) \<Rightarrow>
                       (case open_read path st2 of
                          (Inl e, st3) \<Rightarrow> (Some e, st3)
                        | (Inr text, st3) \<Rightarrow>
                            (case b64decode text of
                               Inl e \<Rightarrow> (Some e, st3)
                             | Inr data \<Rightarrow>
                                 (case loads parse_float (Bytes data) of
                                    Inl e \<Rightarrow> (Some e, st3)
                                  | Inr obj \<Rightarrow>
                                      (None, print (dumps float_repr obj 2) st3)))))))"

definition exit_status :: "py_error option \<times> os_state \<Rightarrow> nat" where
  "exit_status r = (case fst r of None \<Rightarrow> 0 | Some e \<Rightarrow> 1)"

section \<open>Runs of the program\<close>

text \<open>The path of the token file for a home directory and an identifier.\<close>

abbreviation token_path :: "path \<Rightarrow> pystr \<Rightarrow> path" where
  "token_path home identifier \<equiv> joinpath home
                      [ascii ''AppData'', ascii ''Local'', ascii ''tupy'',
                       ascii ''spotify.'' @ identifier @ ascii ''.token'']"

lemma Path_home_cases:
  "\<exists>r evs. Path_home st = (r, st\<lparr>trace := trace st @ evs\<rparr>) \<and> (evs = [Getenv (ascii ''HOME'')] \<or> evs = [Getenv (ascii ''HOME''), Getpwuid])"
  by (auto simp: Path_home_def expanduser_tilde_def os_environ_get_def pwd_getpwuid_def Let_def split: option.splits)

lemma exists_cases:
  "exists p st = (r, st') \<Longrightarrow> st' = st \<and> r = Inr False \<or> st' = st\<lparr>trace := trace st @ [Stat (path_str p)]\<rparr>"
  by (auto simp: exists_def os_stat_def split: sum.splits py_error.splits if_splits prod.splits)

lemma open_read_cases:
  "open_read p st = (r, st') \<Longrightarrow> st' = st \<and> r = Inl ValueError \<or> st' = st\<lparr>trace := trace st @ [Open (path_str p)]\<rparr>"
  by (auto simp: open_read_def split: sum.splits node.splits if_splits)

lemma main_cases [consumes 0, case_names no_home no_argument exists_raises missing unreadable not_base64 not_json printed]:
  obtains
    (no_home) e st1 where "Path_home st = (Inl e, st1)" "main pf fr argv st = (Some e, st1)"
  | (no_argument) home st1 where "Path_home st = (Inr home, st1)" "getitem argv 1 = Inl IndexError"
      "main pf fr argv st = (Some IndexError, st1)"
  | (exists_raises) home st1 ident e st2 where "Path_home st = (Inr home, st1)"
      "getitem argv 1 = Inr ident" "exists (token_path home ident) st1 = (Inl e, st2)"
      "main pf fr argv st = (Some e, st2)"
  | (missing) home st1 ident st2 where "Path_home st = (Inr home, st1)"
      "getitem argv 1 = Inr ident" "exists (token_path home ident) st1 = (Inr False, st2)"
      "main pf fr argv st = (None, st2)"
  | (unreadable) home st1 ident st2 e st3 where "Path_home st = (Inr home, st1)"
      "getitem argv 1 = Inr ident" "exists (token_path home ident) st1 = (Inr True, st2)"
      "open_read (token_path home ident) st2 = (Inl e, st3)"
      "main pf fr argv st = (Some e, st3)"
  | (not_base64) home st1 ident st2 content st3 e where "Path_home st = (Inr home, st1)"
      "getitem argv 1 = Inr ident" "exists (token_path home ident) st1 = (Inr True, st2)"
      "open_read (token_path home ident) st2 = (Inr content, st3)"
      "b64decode content = Inl e"
      "main pf fr argv st = (Some e, st3)"
  | (not_json) home st1 ident st2 content st3 data e where "Path_home st = (Inr home, st1)"
      "getitem argv 1 = Inr ident" "exists (token_path home ident) st1 = (Inr True, st2)"
      "open_read (token_path home ident) st2 = (Inr content, st3)"
      "b64decode content = Inr data" "loads pf (Bytes data) = Inl e"
      "main pf fr argv st = (Some e, st3)"
  | (printed) home st1 ident st2 content st3 data obj where "Path_home st = (Inr home, st1)"
      "getitem argv 1 = Inr ident" "exists (token_path home ident) st1 = (Inr True, st2)"
      "open_read (token_path home ident) st2 = (Inr content, st3)"
      "b64decode content = Inr data" "loads pf (Bytes data) = Inr obj"
      "main pf fr argv st = (None, print (dumps fr obj 2) st3)"
proof (cases "Path_home st")
  case (Pair r1 st1)
  note home = this
  show ?thesis
  proof (cases r1)
    case (Inl e)
    with home show ?thesis using that(1) by (simp add: main_def)
  next
    case (Inr home')
    note r1 = this
    show ?thesis
    proof (cases "getitem argv 1")
      case (Inl e)
      then have "e = IndexError" by (simp add: getitem_def split: if_splits)
      with home r1 Inl show ?thesis using that(2) by (simp add: main_def)
    next
      case (Inr ident)
      note arg = this
      obtain r2 st2 where ex: "exists (token_path home' ident) st1 = (r2, st2)" by force
      show ?thesis
      proof (cases r2)
        case (Inl e)
        with home r1 arg ex show ?thesis using that(3) by (simp add: main_def)
      next
        case (Inr b)
        note r2 = this
        show ?thesis
        proof (cases b)
          case False
          with home r1 arg ex r2 show ?thesis using that(4) by (simp add: main_def)
        next
          case True
          note b = this
          obtain r3 st3 where rd: "open_read (token_path home' ident) st2 = (r3, st3)" by force
          show ?thesis
          proof (cases r3)
            case (Inl e)
            with home r1 arg ex r2 b rd show ?thesis using that(5) by (simp add: main_def)
          next
            case (Inr content)
            note r3 = this
            show ?thesis
            proof (cases "b64decode content")
              case (Inl e)
              with home r1 arg ex r2 b rd r3 show ?thesis using that(6) by (simp add: main_def)
            next
              case (Inr data)
              note dec = this
              show ?thesis
              proof (cases "loads pf (Bytes data)")
                case (Inl e)
                with home r1 arg ex r2 b rd r3 dec show ?thesis
                  using that(7) by (simp add: main_def del: loads.simps)
              next
                case (Inr obj)
                with home r1 arg ex r2 b rd r3 dec show ?thesis
                  using that(8) by (simp add: main_def del: loads.simps)
              qed
            qed
          qed
        qed
      qed
    qed
  qed
qed


definition is_Open :: "event \<Rightarrow> bool" where
  "is_Open e = (case e of Open p \<Rightarrow> True | _ \<Rightarrow> False)"

definition is_Write :: "event \<Rightarrow> bool" where
  "is_Write e = (case e of Write p \<Rightarrow> True | _ \<Rightarrow> False)"

definition is_Stat :: "event \<Rightarrow> bool" where
  "is_Stat e = (case e of Stat p \<Rightarrow> True | _ \<Rightarrow> False)"

lemma namei_trace [simp]: "namei (st\<lparr>trace := t\<rparr>) p = namei st p"
  by (simp add: namei_def)

definition home_events :: "event list \<Rightarrow> bool" where
  "home_events evs = (evs = [Getenv (ascii ''HOME'')] \<or> evs = [Getenv (ascii ''HOME''), Getpwuid])"

lemma Path_home_state:
  assumes "Path_home st = (r, st1)"
  shows "\<exists>evs. st1 = st\<lparr>trace := trace st @ evs\<rparr> \<and> home_events evs"
  using assms Path_home_cases[of st] by (auto simp: home_events_def)

lemma exists_True:
  assumes "exists p st = (Inr True, st')"
  shows "st' = st\<lparr>trace := trace st @ [Stat (path_str p)]\<rparr> \<and> (\<exists>n. namei st (path_str p) = Inr n)
         \<and> 0 \<notin> set (path_str p)"
  using assms
  by (auto simp: exists_def os_stat_def split: sum.splits py_error.splits if_splits prod.splits)

lemma exists_False:
  assumes "exists p st = (Inr False, st')"
  shows "(st' = st \<and> 0 \<in> set (path_str p)) \<or>
         (st' = st\<lparr>trace := trace st @ [Stat (path_str p)]\<rparr> \<and>
          (namei st (path_str p) = Inl ENOENT \<or> namei st (path_str p) = Inl ENOTDIR))"
  using assms
  by (auto simp: exists_def os_stat_def ignore_error_def split: sum.splits py_error.splits if_splits prod.splits)

lemma exists_Inl:
  assumes "exists p st = (Inl e, st')"
  shows "st' = st\<lparr>trace := trace st @ [Stat (path_str p)]\<rparr> \<and>
         (\<exists>n. e = OSError n \<and> namei st (path_str p) = Inl n \<and> \<not> ignore_error n)"
  using assms
  by (auto simp: exists_def os_stat_def split: sum.splits py_error.splits if_splits prod.splits)

lemma open_read_Inr:
  assumes "open_read p st = (Inr content, st')"
  shows "st' = st\<lparr>trace := trace st @ [Open (path_str p)]\<rparr> \<and>
         namei st (path_str p) = Inr (File (Inr content))"
  using assms
  by (auto simp: open_read_def split: sum.splits node.splits if_splits)

lemma open_read_Inl:
  assumes "open_read p st = (Inl e, st')"
  shows "(st' = st \<and> e = ValueError \<and> 0 \<in> set (path_str p)) \<or>
         (st' = st\<lparr>trace := trace st @ [Open (path_str p)]\<rparr> \<and>
          ((\<exists>n. namei st (path_str p) = Inl n \<and> e = OSError n) \<or>
           (\<exists>search entries. namei st (path_str p) = Inr (Dir search entries) \<and> e = OSError EISDIR) \<or>
           namei st (path_str p) = Inr (File (Inl e))))"
  using assms
  by (auto simp: open_read_def split: sum.splits node.splits if_splits)


lemma main_runs [consumes 0, case_names no_home no_argument exists_raises null_character missing
    unreadable not_base64 not_json printed]:
  obtains
    (no_home) e evs where "home_events evs"
      "Path_home st = (Inl e, st\<lparr>trace := trace st @ evs\<rparr>)"
      "main pf fr argv st = (Some e, st\<lparr>trace := trace st @ evs\<rparr>)"
  | (no_argument) home evs where "home_events evs"
      "Path_home st = (Inr home, st\<lparr>trace := trace st @ evs\<rparr>)"
      "length argv \<le> 1"
      "main pf fr argv st = (Some IndexError, st\<lparr>trace := trace st @ evs\<rparr>)"
  | (exists_raises) home evs p n where "home_events evs"
      "Path_home st = (Inr home, st\<lparr>trace := trace st @ evs\<rparr>)"
      "1 < length argv" "p = path_str (token_path home (argv ! 1))"
      "namei st p = Inl n" "\<not> ignore_error n"
      "main pf fr argv st = (Some (OSError n), st\<lparr>trace := trace st @ evs @ [Stat p]\<rparr>)"
  | (null_character) home evs p where "home_events evs"
      "Path_home st = (Inr home, st\<lparr>trace := trace st @ evs\<rparr>)"
      "1 < length argv" "p = path_str (token_path home (argv ! 1))"
      "0 \<in> set p"
      "main pf fr argv st = (None, st\<lparr>trace := trace st @ evs\<rparr>)"
  | (missing) home evs p n where "home_events evs"
      "Path_home st = (Inr home, st\<lparr>trace := trace st @ evs\<rparr>)"
      "1 < length argv" "p = path_str (token_path home (argv ! 1))"
      "namei st p = Inl n" "ignore_error n"
      "main pf fr argv st = (None, st\<lparr>trace := trace st @ evs @ [Stat p]\<rparr>)"
  | (unreadable) home evs p e where "home_events evs"
      "Path_home st = (Inr home, st\<lparr>trace := trace st @ evs\<rparr>)"
      "1 < length argv" "p = path_str (token_path home (argv ! 1))"
      "(\<exists>search entries. namei st p = Inr (Dir search entries) \<and> e = OSError EISDIR)
        \<or> namei st p = Inr (File (Inl e))"
      "main pf fr argv st = (Some e, st\<lparr>trace := trace st @ evs @ [Stat p, Open p]\<rparr>)"
  | (not_base64) home evs p content e where "home_events evs"
      "Path_home st = (Inr home, st\<lparr>trace := trace st @ evs\<rparr>)"
      "1 < length argv" "p = path_str (token_path home (argv ! 1))"
      "namei st p = Inr (File (Inr content))" "b64decode content = Inl e"
      "main pf fr argv st = (Some e, st\<lparr>trace := trace st @ evs @ [Stat p, Open p]\<rparr>)"
  | (not_json) home evs p content data e where "home_events evs"
      "Path_home st = (Inr home, st\<lparr>trace := trace st @ evs\<rparr>)"
      "1 < length argv" "p = path_str (token_path home (argv ! 1))"
      "namei st p = Inr (File (Inr content))" "b64decode content = Inr data"
      "loads pf (Bytes data) = Inl e"
      "main pf fr argv st = (Some e, st\<lparr>trace := trace st @ evs @ [Stat p, Open p]\<rparr>)"
  | (printed) home evs p content data obj where "home_events evs"
      "Path_home st = (Inr home, st\<lparr>trace := trace st @ evs\<rparr>)"
      "1 < length argv" "p = path_str (token_path home (argv ! 1))"
      "namei st p = Inr (File (Inr content))" "b64decode content = Inr data"
      "loads pf (Bytes data) = Inr obj"
      "main pf fr argv st =
         (None, st\<lparr>stdout := stdout st @ dumps fr obj 2 @ [10],
                    trace := trace st @ evs @ [Stat p, Open p, Write (dumps fr obj 2 @ [10])]\<rparr>)"
proof (cases rule: main_cases[of st pf fr argv])
  case (no_home e st1)
  with Path_home_state[OF no_home(1)] show ?thesis using that(1) by blast
next
  case (no_argument home st1)
  from no_argument(2) have "length argv \<le> 1" by (simp add: getitem_def split: if_splits)
  with no_argument Path_home_state[OF no_argument(1)] show ?thesis using that(2) by blast
next
  case (exists_raises home st1 ident e st2)
  from exists_raises(2) have arg: "1 < length argv" "ident = argv ! 1"
    by (auto simp: getitem_def split: if_splits)
  from Path_home_state[OF exists_raises(1)] obtain evs where
    evs: "st1 = st\<lparr>trace := trace st @ evs\<rparr>" "home_events evs" by blast
  from exists_Inl[OF exists_raises(3)] evs exists_raises arg show ?thesis
    using that(3)[of evs home "path_str (token_path home ident)"] by auto
next
  case (missing home st1 ident st2)
  from missing(2) have arg: "1 < length argv" "ident = argv ! 1"
    by (auto simp: getitem_def split: if_splits)
  from Path_home_state[OF missing(1)] obtain evs where
    evs: "st1 = st\<lparr>trace := trace st @ evs\<rparr>" "home_events evs" by blast
  from exists_False[OF missing(3)] show ?thesis
  proof
    assume "st2 = st1 \<and> 0 \<in> set (path_str (token_path home ident))"
    with evs missing arg show ?thesis using that(4)[of evs home] by auto
  next
    assume "st2 = st1\<lparr>trace := trace st1 @ [Stat (path_str (token_path home ident))]\<rparr> \<and>
      (namei st1 (path_str (token_path home ident)) = Inl ENOENT \<or>
       namei st1 (path_str (token_path home ident)) = Inl ENOTDIR)"
    with evs missing arg show ?thesis
      using that(5)[of evs home "path_str (token_path home ident)"]
      by (auto simp: ignore_error_def)
  qed
next
  case (unreadable home st1 ident st2 e st3)
  from unreadable(2) have arg: "1 < length argv" "ident = argv ! 1"
    by (auto simp: getitem_def split: if_splits)
  from Path_home_state[OF unreadable(1)] obtain evs where
    evs: "st1 = st\<lparr>trace := trace st @ evs\<rparr>" "home_events evs" by blast
  from exists_True[OF unreadable(3)] open_read_Inl[OF unreadable(4)] evs unreadable arg
  show ?thesis
    using that(6)[of evs home "path_str (token_path home ident)" e] by auto
next
  case (not_base64 home st1 ident st2 content st3 e)
  from not_base64(2) have arg: "1 < length argv" "ident = argv ! 1"
    by (auto simp: getitem_def split: if_splits)
  from Path_home_state[OF not_base64(1)] obtain evs where
    evs: "st1 = st\<lparr>trace := trace st @ evs\<rparr>" "home_events evs" by blast
  from exists_True[OF not_base64(3)] open_read_Inr[OF not_base64(4)] evs not_base64 arg
  show ?thesis
    using that(7)[of evs home "path_str (token_path home ident)" content e] by auto
next
  case (not_json home st1 ident st2 content st3 data e)
  from not_json(2) have arg: "1 < length argv" "ident = argv ! 1"
    by (auto simp: getitem_def split: if_splits)
  from Path_home_state[OF not_json(1)] obtain evs where
    evs: "st1 = st\<lparr>trace := trace st @ evs\<rparr>" "home_events evs" by blast
  from exists_True[OF not_json(3)] open_read_Inr[OF not_json(4)] evs not_json arg
  show ?thesis
    using that(8)[of evs home "path_str (token_path home ident)" content data e]
    by (auto simp del: loads.simps)
next
  case (printed home st1 ident st2 content st3 data obj)
  from printed(2) have arg: "1 < length argv" "ident = argv ! 1"
    by (auto simp: getitem_def split: if_splits)
  from Path_home_state[OF printed(1)] obtain evs where
    evs: "st1 = st\<lparr>trace := trace st @ evs\<rparr>" "home_events evs" by blast
  from exists_True[OF printed(3)] open_read_Inr[OF printed(4)] evs printed arg
  show ?thesis
    using that(9)[of evs home "path_str (token_path home ident)" content data obj]
    by (auto simp: print_def simp del: loads.simps)
qed

lemma namei_Path_home: "Path_home st = (r, st1) \<Longrightarrow> namei st1 p = namei st p"
  using Path_home_state[of st r st1] by auto

text \<open>
  \<open>reads_as st p content\<close>: the path \<open>p\<close> names a regular file, and opening and reading it
  gives \<open>content\<close>.
\<close>

definition reads_as :: "os_state \<Rightarrow> pystr \<Rightarrow> pystr \<Rightarrow> bool" where
  "reads_as st p content = (0 \<notin> set p \<and> namei st p = Inr (File (Inr content)))"

lemma main_at_file:
  assumes home: "Path_home st = (Inr home, st1)"
    and arg: "1 < length argv"
    and p: "p = path_str (token_path home (argv ! 1))"
    and node: "reads_as st p content"
  shows "main pf fr argv st =
     (case b64decode content of
        Inl e \<Rightarrow> (Some e, st1\<lparr>trace := trace st1 @ [Stat p, Open p]\<rparr>)
      | Inr data \<Rightarrow>
          (case loads pf (Bytes data) of
             Inl e \<Rightarrow> (Some e, st1\<lparr>trace := trace st1 @ [Stat p, Open p]\<rparr>)
           | Inr obj \<Rightarrow>
               (None, st1\<lparr>stdout := stdout st1 @ dumps fr obj 2 @ [10],
                          trace := trace st1 @ [Stat p, Open p, Write (dumps fr obj 2 @ [10])]\<rparr>)))"
proof -
  have nul: "0 \<notin> set p" and f1: "namei st1 p = Inr (File (Inr content))"
    using namei_Path_home[OF home] node by (simp_all add: reads_as_def)
  have ex: "exists (token_path home (argv ! 1)) st1
      = (Inr True, st1\<lparr>trace := trace st1 @ [Stat p]\<rparr>)"
    using f1 nul p by (simp add: exists_def os_stat_def)
  have rd: "open_read (token_path home (argv ! 1)) (st1\<lparr>trace := trace st1 @ [Stat p]\<rparr>)
      = (Inr content, st1\<lparr>trace := trace st1 @ [Stat p, Open p]\<rparr>)"
    using f1 nul p by (simp add: open_read_def)
  show ?thesis
    using home arg ex rd
    by (simp add: main_def getitem_def print_def del: loads.simps split: sum.splits)
qed

lemma stdout_Path_home: "Path_home st = (r, st1) \<Longrightarrow> stdout st1 = stdout st"
  using Path_home_state[of st r st1] by auto

lemma Path_home_Inl: "Path_home st = (Inl e, st1) \<Longrightarrow> e = RuntimeError"
  by (auto simp: Path_home_def Let_def split: prod.splits if_splits)

subsection \<open>Example states\<close>


definition tupy_dir :: node where
  "tupy_dir =
     Dir True
       [(ascii ''spotify.foo.token'', File (Inr (ascii ''eyJhIjogMSwgImIiOiBbMiwgM119''))),
        (ascii ''spotify.raw.token'', File (Inr (ascii ''!e30=''))),
        (ascii ''spotify.bad.token'', File (Inr (ascii ''e30''))),
        (ascii ''spotify.utf16.token'', File (Inr (ascii ''//57AH0A''))),
        (ascii ''spotify.nojson.token'', File (Inr (ascii ''WzEsXQ==''))),
        (ascii ''spotify.x'', Dir True [])]"

definition fs_tokens :: node where
  "fs_tokens =
     Dir True
       [(ascii ''home'', Dir True
          [(ascii ''u'', Dir True
             [(ascii ''AppData'', Dir True
                [(ascii ''Local'', Dir True
                   [(ascii ''tupy'', tupy_dir),
                    (ascii ''y.token'', File (Inr (ascii ''MQ==''))),
                    (ascii ''x.token'', File (Inr (ascii ''Mg=='')))])])])])]"

definition st_tokens :: os_state where
  "st_tokens =
     \<lparr>environ = [ascii ''HOME'' \<mapsto> ascii ''/home/u''], pw_dir = None, cwd = [],
      fs = fs_tokens, stdout = [], trace = []\<rparr>"

definition home_u :: path where
  "home_u = \<lparr>path_root = ascii ''/'', path_parts = [ascii ''/'', ascii ''home'', ascii ''u'']\<rparr>"

lemmas path_defs =
  Path_home_def expanduser_tilde_def os_environ_get_def pwd_getpwuid_def rstrip_def
  from_parts_def parse_parts_def splitroot_def sep_def ascii_def joinpath_def
  join_parsed_parts_def path_str_def format_parsed_parts_def namei_def Let_def


lemma Path_home_st_tokens:
  "Path_home st_tokens = (Inr home_u, st_tokens\<lparr>trace := [Getenv (ascii ''HOME'')]\<rparr>)"
  by (simp add: st_tokens_def home_u_def path_defs)

text \<open>
  In the examples a \<open>float\<close> is the text of its literal: \<open>float(s)\<close> keeps the text and
  \<open>float.__repr__\<close> gives it back. \<open>st_no_home\<close> is a state without \<open>$HOME\<close> and without an
  entry in the password database.
\<close>

definition parse_literal :: "pystr \<Rightarrow> pystr pyfloat" where
  "parse_literal s = Finite s"

definition repr_literal :: "pystr \<Rightarrow> pystr" where
  "repr_literal x = x"

definition decode_token_py :: pystr where "decode_token_py = ascii ''decode_token.py''"

definition st_no_home :: os_state where
  "st_no_home =
     \<lparr>environ = Map.empty, pw_dir = None, cwd = [], fs = fs_tokens, stdout = [], trace = []\<rparr>"

text \<open>
  The scenario of the specification: the text \<open>{"a": 1, "b": [2, 3]}\<close> and the output
  expected for it.
\<close>

definition quoted :: "pystr \<Rightarrow> pystr" where
  "quoted s = 34 # s @ [34]"

definition lines :: "pystr list \<Rightarrow> pystr" where
  "lines ls = concat (map (\<lambda>l. l @ [10]) ls)"

definition scenario_text :: pystr where
  "scenario_text =
     ascii ''{'' @ quoted (ascii ''a'') @ ascii '': 1, '' @ quoted (ascii ''b'') @ ascii '': [2, 3]}''"

definition scenario_stdout :: pystr where
  "scenario_stdout =
     lines [ascii ''{'',
            ascii ''  '' @ quoted (ascii ''a'') @ ascii '': 1,'',
            ascii ''  '' @ quoted (ascii ''b'') @ ascii '': ['',
            ascii ''    2,'',
            ascii ''    3'',
            ascii ''  ]'',
            ascii ''}'']"


lemma token_path_st_tokens:
  "path_str (token_path home_u (ascii ''foo'')) = ascii ''/home/u/AppData/Local/tupy/spotify.foo.token''"
  "path_str (token_path home_u (ascii ''raw'')) = ascii ''/home/u/AppData/Local/tupy/spotify.raw.token''"
  "path_str (token_path home_u (ascii ''bad'')) = ascii ''/home/u/AppData/Local/tupy/spotify.bad.token''"
  "path_str (token_path home_u (ascii ''utf16'')) = ascii ''/home/u/AppData/Local/tupy/spotify.utf16.token''"
  "path_str (token_path home_u (ascii ''nojson'')) = ascii ''/home/u/AppData/Local/tupy/spotify.nojson.token''"
  by code_simp+

lemma reads_as_st_tokens:
  "reads_as st_tokens (ascii ''/home/u/AppData/Local/tupy/spotify.foo.token'') (ascii ''eyJhIjogMSwgImIiOiBbMiwgM119'')"
  "reads_as st_tokens (ascii ''/home/u/AppData/Local/tupy/spotify.raw.token'') (ascii ''!e30='')"
  "reads_as st_tokens (ascii ''/home/u/AppData/Local/tupy/spotify.bad.token'') (ascii ''e30'')"
  "reads_as st_tokens (ascii ''/home/u/AppData/Local/tupy/spotify.utf16.token'') (ascii ''//57AH0A'')"
  "reads_as st_tokens (ascii ''/home/u/AppData/Local/tupy/spotify.nojson.token'') (ascii ''WzEsXQ=='')"
  by code_simp+

lemma b64decode_examples:
  "b64decode (ascii ''eyJhIjogMSwgImIiOiBbMiwgM119'') = Inr (map of_nat scenario_text)"
  "b64decode (ascii ''!e30='') = Inr [123, 125]"
  "b64decode (ascii ''e30'') = Inl (BinasciiError Incorrect_padding)"
  "b64decode (ascii ''//57AH0A'') = Inr [0xFF, 0xFE, 0x7B, 0, 0x7D, 0]"
  "b64decode (ascii ''WzEsXQ=='') = Inr [91, 49, 44, 93]"
  by code_simp+

lemma loads_examples:
  "loads parse_literal (Bytes (map of_nat scenario_text))
     = Inr (PyDict [(ascii ''a'', PyInt 1), (ascii ''b'', PyList [PyInt 2, PyInt 3])])"
  "loads parse_literal (Bytes [123, 125]) = Inr (PyDict [])"
  "loads parse_literal (Bytes [0xFF, 0xFE, 0x7B, 0, 0x7D, 0]) = Inr (PyDict [])"
  "loads parse_literal (Bytes [91, 49, 44, 93]) = Inl (JSONDecodeError Expecting_value)"
  by code_simp+

lemma dumps_examples:
  "dumps repr_literal (PyDict [(ascii ''a'', PyInt 1), (ascii ''b'', PyList [PyInt 2, PyInt 3])]) 2 @ [10]
     = scenario_stdout"
  "dumps repr_literal (PyDict []) 2 = ascii ''{}''"
  by code_simp+


lemma token_path_parts:
  "path_root (token_path home ident) = path_root home \<and>
   path_parts (token_path home ident) =
     path_parts home @ [ascii ''AppData'', ascii ''Local'', ascii ''tupy'']
       @ filter (\<lambda>x. x \<noteq> [] \<and> x \<noteq> ascii ''.'')
           (split sep (ascii ''spotify.'' @ ident @ ascii ''.token''))"
  by (simp add: joinpath_def parse_parts_def join_parsed_parts_def splitroot_def sep_def
        ascii_def rev_filter)

section \<open>The claims\<close>



text \<open>
  C9. In every run the state of the system changes only in the text written to standard
  output and in the trace of system calls: the file system after the run is the file
  system before it. The trace gains at most one opening of a file for reading and at most
  one write; every other entry is a query (of \<open>$HOME\<close>, of the password database, of
  the status of a path).
\<close>

theorem run_reads_one_file_and_prints_once:
  "\<exists>out evs. snd (main pf fr argv st) = st\<lparr>stdout := stdout st @ out, trace := trace st @ evs\<rparr>
      \<and> fs (snd (main pf fr argv st)) = fs st
      \<and> length (filter is_Open evs) \<le> 1
      \<and> length (filter is_Write evs) \<le> 1
      \<and> list_all (\<lambda>e. e = Getenv (ascii ''HOME'') \<or> e = Getpwuid \<or> is_Stat e \<or> is_Open e
                      \<or> e = Write out) evs"
proof (cases rule: main_runs[of st pf fr argv])
  case (no_home e evs)
  then show ?thesis
    by (intro exI[of _ "[]"] exI[of _ evs])
       (auto simp: home_events_def is_Open_def is_Write_def)
next
  case (no_argument home evs)
  then show ?thesis 
    by (intro exI[of _ "[]"] exI[of _ evs])
       (auto simp: home_events_def is_Open_def is_Write_def)
next
  case (exists_raises home evs p n)
  then show ?thesis
    by (intro exI[of _ "[]"] exI[of _ "evs @ [Stat p]"])
       (auto simp: home_events_def is_Open_def is_Write_def is_Stat_def)
next
  case (null_character home evs p)
  then show ?thesis 
    by (intro exI[of _ "[]"] exI[of _ evs])
       (auto simp: home_events_def is_Open_def is_Write_def)
next
  case (missing home evs p n)
  then show ?thesis 
    by (intro exI[of _ "[]"] exI[of _ "evs @ [Stat p]"])
       (auto simp: home_events_def is_Open_def is_Write_def is_Stat_def)
next
  case (unreadable home evs p e)
  then show ?thesis 
    by (intro exI[of _ "[]"] exI[of _ "evs @ [Stat p, Open p]"])
       (auto simp: home_events_def is_Open_def is_Write_def is_Stat_def)
next
  case (not_base64 home evs p content e)
  then show ?thesis
    by (intro exI[of _ "[]"] exI[of _ "evs @ [Stat p, Open p]"])
       (auto simp: home_events_def is_Open_def is_Write_def is_Stat_def)
next
  case (not_json home evs p content data e)
  then show ?thesis
    by (intro exI[of _ "[]"] exI[of _ "evs @ [Stat p, Open p]"])
       (auto simp: home_events_def is_Open_def is_Write_def is_Stat_def) 
next
  case (printed home evs p content data obj)
  then show ?thesis
    by (intro exI[of _ "dumps fr obj 2 @ [10]"]
          exI[of _ "evs @ [Stat p, Open p, Write (dumps fr obj 2 @ [10])]"])
       (auto simp: home_events_def is_Open_def is_Write_def is_Stat_def)
qed



text \<open>
  C7 as stated fails: \<open>Path.home()\<close> is called before \<open>argv[1]\<close> is read, so without
  \<open>$HOME\<close> and without an entry in the password database the run ends with the
  \<open>RuntimeError\<close> of \<open>Path.home()\<close>, not with an argument error.
\<close>

theorem no_argument_counterexample:
  "length [decode_token_py] \<le> 1
   \<and> fst (main parse_literal repr_literal [decode_token_py] st_no_home) = Some RuntimeError
   \<and> fst (main parse_literal repr_literal [decode_token_py] st_no_home) \<noteq> Some IndexError"
  by code_simp

text \<open>
  C7, amended. Without an argument the run ends with an uncaught exception and status 1
  before any file is looked up or read, and nothing is written to standard output: the
  only system calls are those of \<open>Path.home()\<close>. The exception is \<open>IndexError\<close> when
  \<open>Path.home()\<close> finds a home directory, and its \<open>RuntimeError\<close> otherwise.
\<close>

theorem no_argument_is_fatal_before_any_file_access:
  assumes "length argv \<le> 1"
  shows "fst (main pf fr argv st) =
           (case fst (Path_home st) of Inr home \<Rightarrow> Some IndexError | Inl e \<Rightarrow> Some RuntimeError)
    \<and> exit_status (main pf fr argv st) = 1
    \<and> stdout (snd (main pf fr argv st)) = stdout st
    \<and> (\<exists>evs. snd (main pf fr argv st) = st\<lparr>trace := trace st @ evs\<rparr> \<and> home_events evs)"
proof (cases rule: main_runs[of st pf fr argv])
  case (no_home e evs)
  with Path_home_Inl[OF no_home(2)] show ?thesis by (auto simp: exit_status_def)
next
  case (no_argument home evs)
  then show ?thesis by (auto simp: exit_status_def)
qed (use assms in auto)

theorem no_argument_is_fatal_before_any_file_access_witness:
  "length [decode_token_py] \<le> 1
   \<and> fst (main parse_literal repr_literal [decode_token_py] st_tokens) = Some IndexError
   \<and> exit_status (main parse_literal repr_literal [decode_token_py] st_tokens) = 1
   \<and> stdout (snd (main parse_literal repr_literal [decode_token_py] st_tokens)) = []"
proof -
  have "length [decode_token_py] \<le> 1" by simp
  from no_argument_is_fatal_before_any_file_access[OF this, of parse_literal repr_literal st_tokens]
  show ?thesis by (simp add: Path_home_st_tokens) (simp add: st_tokens_def)
qed



subsection \<open>When decoding fails\<close>

text \<open>
  \<open>b64decode\<close> raises \<open>ValueError\<close> for a character outside ASCII and otherwise only
  \<open>binascii.Error\<close>. On a text without \<open>=\<close> it fails exactly when the number of
  characters of the alphabet is not a multiple of four: all other characters are
  skipped.
\<close>

definition data_chars :: "bytes \<Rightarrow> bytes" where
  "data_chars s = filter (\<lambda>c. table_a2b_base64 c < 64) s"

lemma table_pad: "table_a2b_base64 BASE64_PAD = 255"
  by (simp add: table_a2b_base64_def BASE64_PAD_def)

lemma a2b_loop_unpadded:
  "BASE64_PAD \<notin> set s \<Longrightarrow> quad_pos < 4 \<Longrightarrow>
   (\<exists>m. a2b_loop s quad_pos leftchar pads bin = Inl m)
     \<longleftrightarrow> (quad_pos + length (data_chars s)) mod 4 \<noteq> 0"
proof (induction s arbitrary: quad_pos leftchar pads bin)
  case Nil
  then show ?case by (simp add: data_chars_def)
next
  case (Cons c s)
  from Cons.prems have c: "c \<noteq> BASE64_PAD" and s: "BASE64_PAD \<notin> set s" by auto
  show ?case
  proof (cases "table_a2b_base64 c < 64")
    case False
    with c s Cons.IH[OF s Cons.prems(2)] show ?thesis
      by (simp add: data_chars_def Let_def not_less)
  next
    case True
    then have d: "data_chars (c # s) = c # data_chars s" by (simp add: data_chars_def)
    have n: "\<not> 64 \<le> table_a2b_base64 c" using True by simp
    consider "quad_pos = 0" | "quad_pos = 1" | "quad_pos = 2" | "quad_pos = 3"
      using Cons.prems(2) by linarith
    then show ?thesis
    proof cases
      case 1
      with c n d Cons.IH[OF s, of 1] show ?thesis by (simp add: Let_def)
    next
      case 2
      with c n d Cons.IH[OF s, of 2] show ?thesis by (simp add: Let_def)
    next
      case 3
      with c n d Cons.IH[OF s, of 3] show ?thesis by (simp add: Let_def)
    next
      case 4
      with c n d Cons.IH[OF s, of 0] show ?thesis by (simp add: Let_def)
    qed
  qed
qed

lemma b64decode_non_ascii: "\<exists>c\<in>set s. 128 \<le> c \<Longrightarrow> b64decode s = Inl ValueError"
  by (auto simp: b64decode_def bytes_from_decode_data_def list_all_iff)

lemma byte_all:
  assumes "list_all (\<lambda>n. P (of_nat n :: byte)) [0..<256]"
  shows "P w"
proof -
  have "unat w < 256" using unsigned_less[of w] by simp
  then have m: "unat w \<in> set [0..<256]" by simp
  from assms have b: "\<forall>n\<in>set [0..<256]. P (of_nat n)" unfolding list_all_iff .
  from bspec[OF b m] show ?thesis by simp
qed

lemma table_a2b_base64_alphabet: "table_a2b_base64 w < 64 \<longleftrightarrow> b64_alphabet (unat w)"
  by (rule byte_all[of _ w]) code_simp

lemma data_chars_of_nat:
  "list_all (\<lambda>c. c < 128) s \<Longrightarrow>
   length (data_chars (map of_nat s)) = length (filter b64_alphabet s)"
proof (induction s)
  case Nil
  then show ?case by (simp add: data_chars_def)
next
  case (Cons c s)
  then have "unat (of_nat c :: byte) = c" by (simp add: unat_of_nat)
  with Cons show ?case
    by (simp add: data_chars_def table_a2b_base64_alphabet)
qed

lemma b64decode_unpadded:
  assumes "list_all (\<lambda>c. c < 128) s" and "61 \<notin> set s"
  shows "(\<exists>m. b64decode s = Inl (BinasciiError m))
     \<longleftrightarrow> length (filter b64_alphabet s) mod 4 \<noteq> 0"
proof -
  have "BASE64_PAD \<notin> set (map of_nat s)"
  proof
    assume "BASE64_PAD \<in> set (map of_nat s)"
    then obtain c where c: "c \<in> set s" "(of_nat c :: byte) = 61" by (auto simp: BASE64_PAD_def)
    with assms(1) have "c < 128" by (simp add: list_all_iff)
    then have "unat (of_nat c :: byte) = c" by (simp add: unat_of_nat)
    with c(2) have "c = 61" by simp
    with c(1) assms(2) show False by simp
  qed
  from a2b_loop_unpadded[OF this, of 0 0 0 "[]"] data_chars_of_nat[OF assms(1)] assms(1)
  show ?thesis
    by (auto simp: b64decode_def bytes_from_decode_data_def a2b_base64_def split: sum.splits)
qed

lemma b64decode_error_kinds: "b64decode s = Inl e \<Longrightarrow> e = ValueError \<or> (\<exists>m. e = BinasciiError m)"
  by (auto simp: b64decode_def bytes_from_decode_data_def a2b_base64_def split: if_splits sum.splits)








text \<open>
  C3 as stated fails: \<open>!e30=\<close> is not valid standard Base64, but \<open>b64decode\<close> skips
  the \<open>!\<close>, decodes \<open>e30=\<close> to \<open>{}\<close>, and the program prints \<open>{}\<close> and ends normally.
\<close>

theorem not_base64_counterexample:
  "\<not> standard_base64 (ascii ''!e30='')
   \<and> reads_as st_tokens (path_str (token_path home_u (ascii ''raw''))) (ascii ''!e30='')
   \<and> fst (main parse_literal repr_literal [decode_token_py, ascii ''raw''] st_tokens) = None
   \<and> stdout (snd (main parse_literal repr_literal [decode_token_py, ascii ''raw''] st_tokens))
       = ascii ''{}'' @ [10]"
proof -
  have 1: "\<not> standard_base64 (ascii ''!e30='')" by code_simp
  have 2: "1 < length [decode_token_py, ascii ''raw'']" by simp
  have 3: "reads_as st_tokens (path_str (token_path home_u ([decode_token_py, ascii ''raw''] ! 1)))
             (ascii ''!e30='')"
    by (simp add: token_path_st_tokens reads_as_st_tokens)
  from main_at_file[OF Path_home_st_tokens 2 refl 3, of parse_literal repr_literal] 1 3
  show ?thesis
    by (simp add: b64decode_examples loads_examples dumps_examples del: loads.simps)
       (simp add: st_tokens_def)
qed

text \<open>
  C3, amended. When \<open>b64decode\<close> rejects the content of the token file, the run ends with
  that exception (\<open>ValueError\<close> or \<open>binascii.Error\<close>) and status 1, and nothing is written
  to standard output.
\<close>

theorem rejected_base64_is_fatal_without_output:
  assumes "Path_home st = (Inr home, st1)" and "1 < length argv"
    and "reads_as st (path_str (token_path home (argv ! 1))) content"
    and "b64decode content = Inl e"
  shows "fst (main pf fr argv st) = Some e
    \<and> (e = ValueError \<or> (\<exists>m. e = BinasciiError m))
    \<and> exit_status (main pf fr argv st) = 1
    \<and> stdout (snd (main pf fr argv st)) = stdout st"
  using main_at_file[OF assms(1,2) refl assms(3), of pf fr] assms(4) stdout_Path_home[OF assms(1)]
    b64decode_error_kinds[OF assms(4)]
  by (simp add: exit_status_def)

theorem rejected_base64_is_fatal_without_output_witness:
  "reads_as st_tokens (path_str (token_path home_u (ascii ''bad''))) (ascii ''e30'')
   \<and> b64decode (ascii ''e30'') = Inl (BinasciiError Incorrect_padding)
   \<and> fst (main parse_literal repr_literal [decode_token_py, ascii ''bad''] st_tokens)
       = Some (BinasciiError Incorrect_padding)
   \<and> exit_status (main parse_literal repr_literal [decode_token_py, ascii ''bad''] st_tokens) = 1
   \<and> stdout (snd (main parse_literal repr_literal [decode_token_py, ascii ''bad''] st_tokens)) = []"
proof -
  have 2: "1 < length [decode_token_py, ascii ''bad'']" by simp
  have 3: "reads_as st_tokens (path_str (token_path home_u ([decode_token_py, ascii ''bad''] ! 1)))
             (ascii ''e30'')"
    by (simp add: token_path_st_tokens reads_as_st_tokens)
  from rejected_base64_is_fatal_without_output[OF Path_home_st_tokens 2 3 b64decode_examples(3),
      of parse_literal repr_literal] 3
  show ?thesis by (simp add: b64decode_examples) (simp add: st_tokens_def)
qed




subsection \<open>The run as a function of what it reads\<close>






text \<open>What a run started in \<open>st\<close> wrote to standard output, and the system calls it made.\<close>

definition written :: "os_state \<Rightarrow> py_error option \<times> os_state \<Rightarrow> pystr" where
  "written st r = drop (length (stdout st)) (stdout (snd r))"

definition calls :: "os_state \<Rightarrow> py_error option \<times> os_state \<Rightarrow> event list" where
  "calls st r = drop (length (trace st)) (trace (snd r))"





lemma token_path_parent_x:
  "path_parts (token_path home (ascii ''../x'')) =
     path_parts home @ [ascii ''AppData'', ascii ''Local'', ascii ''tupy'',
                        ascii ''spotify...'', ascii ''x.token'']"
  using token_path_parts[of home "ascii ''../x''"]
  by (simp add: ascii_def sep_def)




text \<open>
  C10 as stated fails in its example: for the identifier \<open>../x\<close> the file name is
  \<open>spotify.../x.token\<close>, whose first component is \<open>spotify...\<close> and not \<open>..\<close>, so the path
  stays below \<open>tupy\<close> (\<open>token_path_parent_x\<close>). In \<open>st_tokens\<close> the file \<open>Local/x.token\<close>
  exists, and the run with \<open>../x\<close> looks up \<open>tupy/spotify.../x.token\<close>, finds nothing and
  prints nothing.
\<close>

theorem parent_directory_identifier_counterexample:
  "path_str (token_path home_u (ascii ''../x''))
     = ascii ''/home/u/AppData/Local/tupy/spotify.../x.token''
   \<and> reads_as st_tokens (ascii ''/home/u/AppData/Local/x.token'') (ascii ''Mg=='')
   \<and> fst (main parse_literal repr_literal [decode_token_py, ascii ''../x''] st_tokens) = None
   \<and> written st_tokens (main parse_literal repr_literal [decode_token_py, ascii ''../x''] st_tokens)
       = []
   \<and> calls st_tokens (main parse_literal repr_literal [decode_token_py, ascii ''../x''] st_tokens)
       = [Getenv (ascii ''HOME''), Stat (ascii ''/home/u/AppData/Local/tupy/spotify.../x.token'')]"
  by code_simp

text \<open>
  C10, amended. Some identifiers with a parent-directory component after a separator
  leave the directory: for \<open>x/../../y\<close>, with a directory \<open>spotify.x\<close> in \<open>tupy\<close>, the path is
  \<open>tupy/spotify.x/../../y.token\<close>, which names \<open>Local/y.token\<close>; the program opens it and
  prints its decoded content.
\<close>

theorem traversal_identifier_reads_file_outside_tupy:
  "path_parts (token_path home_u (ascii ''x/../../y''))
     = [ascii ''/'', ascii ''home'', ascii ''u'', ascii ''AppData'', ascii ''Local'', ascii ''tupy'',
        ascii ''spotify.x'', ascii ''..'', ascii ''..'', ascii ''y.token'']
   \<and> reads_as st_tokens (ascii ''/home/u/AppData/Local/y.token'') (ascii ''MQ=='')
   \<and> fst (main parse_literal repr_literal [decode_token_py, ascii ''x/../../y''] st_tokens) = None
   \<and> written st_tokens (main parse_literal repr_literal [decode_token_py, ascii ''x/../../y''] st_tokens)
       = ascii ''1'' @ [10]
   \<and> calls st_tokens (main parse_literal repr_literal [decode_token_py, ascii ''x/../../y''] st_tokens)
       = [Getenv (ascii ''HOME''),
          Stat (ascii ''/home/u/AppData/Local/tupy/spotify.x/../../y.token''),
          Open (ascii ''/home/u/AppData/Local/tupy/spotify.x/../../y.token''),
          Write (ascii ''1'' @ [10])]"
  by code_simp

end
